theory Spec2Isabelle
  imports Main "HOL-Library.Word"
begin

section \<open>Data model\<close>

text \<open>
  The wificond Server of \<^verbatim>\<open>server.cpp\<close> and the access-point controller
  \<^verbatim>\<open>ApInterfaceImpl\<close>. Member variables become record fields, every call that
  leaves the process (netlink, interface tool, hostapd manager, the qsap library, listener
  callbacks) is appended to a trace of calls, and the answers of those collaborators are
  read from an environment record. \<^verbatim>\<open>LOG\<close> statements of the Server are not
  modelled; those of \<^verbatim>\<open>ApInterfaceImpl::OnStationEvent\<close> are.
\<close>

type_synonym uint32_t = "32 word"

text \<open>A \<^verbatim>\<open>uint8_t\<close> is a byte; \<^verbatim>\<open>ss << b\<close> inserts it into the stream as one
  character, so a \<^verbatim>\<open>vector<uint8_t>\<close> and the string built from it are the same
  list of 8-bit characters.\<close>

type_synonym uint8_t = char

text \<open>Identity of an \<^verbatim>\<open>sp<IInterfaceEventCallback>\<close>, as compared through
  \<^verbatim>\<open>IInterface::asBinder\<close>.\<close>

type_synonym callback = nat

text \<open>Identity of the remote-call object an interface controller creates for itself
  (what \<^verbatim>\<open>GetBinder()\<close> returns); a null \<^verbatim>\<open>sp<>\<close> is \<open>None\<close>.\<close>

type_synonym handle = nat

text \<open>\<^verbatim>\<open>InterfaceInfo\<close> is declared in a netlink header; these are the members
  the Server reads.\<close>

record InterfaceInfo =
  index :: uint32_t
  name :: string
  mac_address :: "uint8_t list"

datatype Status = ok | fromExceptionCode int

fun isOk :: "Status \<Rightarrow> bool" where
  "isOk ok = True"
| "isOk (fromExceptionCode c) = False"

datatype InterfaceMode = STATION_MODE | AP_MODE

text \<open>Calls to collaborators, in the order the code makes them.\<close>

datatype call =
    GetWiphyIndexWithInterfaceName_call string
  | SubscribeRegDomainChange_call uint32_t
  | UnsubscribeRegDomainChange_call uint32_t
  | GetInterfaces_call uint32_t
  | SubscribeStationEvent_call uint32_t
  | UnsubscribeStationEvent_call uint32_t
  | SetUpState_call string bool
  | SetInterfaceMode_call uint32_t InterfaceMode
  | HostapdManager_StopHostapd_call
  | NotifyImplDead_call handle
  | ClientInterfaceImpl_new_call uint32_t string uint32_t "uint8_t list" handle
  | ClientInterfaceImpl_delete_call handle
  | OnClientInterfaceReady_call callback handle
  | OnApInterfaceReady_call callback handle
  | OnClientTorndownEvent_call callback handle
  | OnApTorndownEvent_call callback handle
  | if_nametoindex_call string
  | linux_get_ifhwaddr_call string
  | qsap_hostd_exec_call "string list"
  | qsap_add_or_remove_interface_call string int
  | qsap_control_bridge_call "string list"
  | qsapsetSoftap_call "string list"
  | startHostapd_call handle bool
  | stopHostapd_call handle bool

text \<open>
  What the collaborators answer. None of them is part of the sources at hand, so a
  theorem about the Server holds for every environment. An answer depends on the
  arguments of the call only. \<open>GetInterfaces\<close> gives its
  return value and what it left in the output vector; \<open>linux_get_ifhwaddr\<close> gives its
  return code (0 is success) and the bytes it wrote to the buffer; the remote methods
  \<open>startHostapd\<close> and \<open>stopHostapd\<close> of \<^verbatim>\<open>IApInterface\<close> give their
  transport status and what they stored through \<^verbatim>\<open>out_success\<close>, if anything.
\<close>

record Env =
  GetWiphyIndexWithInterfaceName :: "string \<Rightarrow> uint32_t option"
  GetInterfaces :: "uint32_t \<Rightarrow> bool \<times> InterfaceInfo list"
  SetUpState :: "string \<Rightarrow> bool \<Rightarrow> bool"
  SetInterfaceMode :: "uint32_t \<Rightarrow> InterfaceMode \<Rightarrow> bool"
  HostapdManager_StopHostapd :: bool
  if_nametoindex :: "string \<Rightarrow> uint32_t"
  linux_get_ifhwaddr :: "string \<Rightarrow> int \<times> uint8_t list"
  qsap_hostd_exec :: "string list \<Rightarrow> int"
  qsap_add_or_remove_interface :: "string \<Rightarrow> int \<Rightarrow> int"
  qsap_control_bridge :: "string list \<Rightarrow> int"
  qsapsetSoftap :: "string list \<Rightarrow> int"
  startHostapd :: "handle \<Rightarrow> bool \<Rightarrow> Status \<times> bool option"
  stopHostapd :: "handle \<Rightarrow> bool \<Rightarrow> Status \<times> bool option"

record ClientInterfaceImpl =
  client_wiphy_index :: uint32_t
  client_interface_name :: string
  client_interface_index :: uint32_t
  client_interface_mac_addr :: "uint8_t list"
  client_handle :: handle

text \<open>Member names are the source's without the trailing underscore.
  \<^verbatim>\<open>number_of_associated_stations_\<close> is a C++ \<^verbatim>\<open>int\<close>
  (\<^verbatim>\<open>GetNumberOfAssociatedStations\<close> returns it as one).\<close>

record ApInterfaceImpl =
  interface_name :: string
  interface_index :: uint32_t
  ap_handle :: handle
  number_of_associated_stations :: int

text \<open>
  The Server. \<open>ap_interface\<close> is the function-local \<^verbatim>\<open>static sp<IApInterface>\<close> of
  \<^verbatim>\<open>setHostapdParam\<close>, which outlives the call. \<open>next_handle\<close> numbers the remote-call
  objects allocated so far, so that each \<^verbatim>\<open>new\<close> yields a fresh identity.
  \<open>calls\<close> is the trace of calls to collaborators, oldest first.
\<close>

record Server =
  wiphy_index :: uint32_t
  interfaces :: "InterfaceInfo list"
  client_interfaces :: "ClientInterfaceImpl list"
  ap_interfaces :: "ApInterfaceImpl list"
  interface_event_callbacks :: "callback list"
  ap_interface :: "handle option"
  next_handle :: nat
  calls :: "call list"

definition kBaseIfName :: string where
  "kBaseIfName = ''wlan0''"

definition do_call :: "call \<Rightarrow> Server \<Rightarrow> Server" where
  "do_call c s = s\<lparr>calls := calls s @ [c]\<rparr>"

section \<open>Interface set-up\<close>

text \<open>\<^verbatim>\<open>android::base::StartsWith(s, prefix)\<close>.\<close>

definition StartsWith :: "string \<Rightarrow> string \<Rightarrow> bool" where
  "StartsWith s prefix = (take (length prefix) s = prefix)"

text \<open>Each \<^verbatim>\<open>return false\<close> of \<^verbatim>\<open>SetupInterface\<close> and
  \<^verbatim>\<open>QcSetupInterface\<close>, named after the error it logs.\<close>

datatype setup_error =
    OtherInterfacesExist
  | FailedToGetWiphyIndex
  | FailedToGetInterfaces
  | NoUsableInterface

definition RefreshWiphyIndex :: "Env \<Rightarrow> Server \<Rightarrow> bool \<times> Server" where
  "RefreshWiphyIndex env s =
     (let s1 = do_call (GetWiphyIndexWithInterfaceName_call kBaseIfName) s
      in case GetWiphyIndexWithInterfaceName env kBaseIfName of
           None \<Rightarrow> (False, s1)
         | Some w \<Rightarrow> (True, s1\<lparr>wiphy_index := w\<rparr>))"

text \<open>The loop of \<^verbatim>\<open>SetupInterface\<close> over the snapshot.\<close>

fun first_usable :: "InterfaceInfo list \<Rightarrow> InterfaceInfo option" where
  "first_usable [] = None"
| "first_usable (iface # rest) =
     (if name iface \<noteq> ''p2p0'' \<and>
         \<not> StartsWith (name iface) ''aware_data'' \<and>
         \<not> StartsWith (name iface) ''softap''
      then Some iface
      else first_usable rest)"

definition SetupInterface :: "Env \<Rightarrow> Server \<Rightarrow> (setup_error + InterfaceInfo) \<times> Server" where
  "SetupInterface env s =
     (if client_interfaces s \<noteq> [] then (Inl OtherInterfacesExist, s)
      else case RefreshWiphyIndex env s of
        (False, s1) \<Rightarrow> (Inl FailedToGetWiphyIndex, s1)
      | (True, s1) \<Rightarrow>
          (let s2 = do_call (SubscribeRegDomainChange_call (wiphy_index s1)) s1;
               s3 = do_call (GetInterfaces_call (wiphy_index s2)) (s2\<lparr>interfaces := []\<rparr>);
               (success, ifaces) = GetInterfaces env (wiphy_index s2);
               s4 = s3\<lparr>interfaces := ifaces\<rparr>
           in if \<not> success then (Inl FailedToGetInterfaces, s4)
              else case first_usable (interfaces s4) of
                     Some iface \<Rightarrow> (Inr iface, s4)
                   | None \<Rightarrow> (Inl NoUsableInterface, s4)))"

section \<open>Event listeners\<close>

definition BroadcastClientInterfaceReady :: "handle \<Rightarrow> Server \<Rightarrow> Server" where
  "BroadcastClientInterfaceReady network_interface s =
     s\<lparr>calls := calls s @
          map (\<lambda>it. OnClientInterfaceReady_call it network_interface)
              (interface_event_callbacks s)\<rparr>"

definition BroadcastApInterfaceReady :: "handle \<Rightarrow> Server \<Rightarrow> Server" where
  "BroadcastApInterfaceReady network_interface s =
     s\<lparr>calls := calls s @
          map (\<lambda>it. OnApInterfaceReady_call it network_interface)
              (interface_event_callbacks s)\<rparr>"

definition BroadcastClientInterfaceTornDown :: "handle \<Rightarrow> Server \<Rightarrow> Server" where
  "BroadcastClientInterfaceTornDown network_interface s =
     s\<lparr>calls := calls s @
          map (\<lambda>it. OnClientTorndownEvent_call it network_interface)
              (interface_event_callbacks s)\<rparr>"

definition BroadcastApInterfaceTornDown :: "handle \<Rightarrow> Server \<Rightarrow> Server" where
  "BroadcastApInterfaceTornDown network_interface s =
     s\<lparr>calls := calls s @
          map (\<lambda>it. OnApTorndownEvent_call it network_interface)
              (interface_event_callbacks s)\<rparr>"

section \<open>Creating interfaces\<close>

text \<open>
  The constructor of \<^verbatim>\<open>ClientInterfaceImpl\<close> is not among the sources; the model
  records that it ran and with which arguments. An out-parameter
  \<^verbatim>\<open>sp<...>* created_interface\<close> is passed in with its value before the call and
  returned with its value after it.
\<close>

definition createClientInterface ::
  "Env \<Rightarrow> handle option \<Rightarrow> Server \<Rightarrow> Status \<times> handle option \<times> Server" where
  "createClientInterface env created_interface s =
     (case SetupInterface env s of
        (Inl e, s1) \<Rightarrow> (ok, created_interface, s1)
      | (Inr interface, s1) \<Rightarrow>
          (let b = next_handle s1;
               client_interface = \<lparr>client_wiphy_index = wiphy_index s1,
                                   client_interface_name = name interface,
                                   client_interface_index = index interface,
                                   client_interface_mac_addr = mac_address interface,
                                   client_handle = b\<rparr>;
               s2 = do_call (ClientInterfaceImpl_new_call (wiphy_index s1) (name interface)
                               (index interface) (mac_address interface) b)
                            (s1\<lparr>next_handle := Suc b\<rparr>);
               s3 = s2\<lparr>client_interfaces := client_interfaces s2 @ [client_interface]\<rparr>;
               s4 = BroadcastClientInterfaceReady (client_handle (last (client_interfaces s3))) s3
           in (ok, Some b, s4)))"

section \<open>The access-point controller\<close>

type_synonym trace = "call list"

text \<open>\<^verbatim>\<open>std::string::c_str()\<close> read back as a C string: the characters before the
  first NUL.\<close>

definition c_str :: "string \<Rightarrow> string" where
  "c_str s = takeWhile (\<lambda>c. c \<noteq> CHR 0x00) s"

text \<open>The constructor: the counter starts at 0 and the controller subscribes to the
  station events of its interface index.\<close>

definition ApInterfaceImpl_new ::
  "string \<Rightarrow> uint32_t \<Rightarrow> handle \<Rightarrow> trace \<Rightarrow> ApInterfaceImpl \<times> trace" where
  "ApInterfaceImpl_new interface_name' interface_index' b tr =
     (\<lparr>interface_name = interface_name',
       interface_index = interface_index',
       ap_handle = b,
       number_of_associated_stations = 0\<rparr>,
      tr @ [SubscribeStationEvent_call interface_index'])"

text \<open>The destructor \<^verbatim>\<open>~ApInterfaceImpl\<close>; the result of \<^verbatim>\<open>SetUpState\<close> is
  not looked at.\<close>

definition ApInterfaceImpl_delete :: "ApInterfaceImpl \<Rightarrow> trace \<Rightarrow> trace" where
  "ApInterfaceImpl_delete ap tr =
     tr @ [NotifyImplDead_call (ap_handle ap),
           SetUpState_call (c_str (interface_name ap)) False,
           UnsubscribeStationEvent_call (interface_index ap)]"

definition StopHostapd :: "Env \<Rightarrow> ApInterfaceImpl \<Rightarrow> trace \<Rightarrow> bool \<times> trace" where
  "StopHostapd env ap tr =
     (let tr1 = tr @ [HostapdManager_StopHostapd_call]
      in if \<not> HostapdManager_StopHostapd env then (False, tr1)
         else
           let tr2 = tr1 @ [SetUpState_call (c_str (interface_name ap)) False]
           in if \<not> SetUpState env (c_str (interface_name ap)) False then (False, tr2)
              else
                let tr3 = tr2 @ [SetInterfaceMode_call (interface_index ap) STATION_MODE]
                in if \<not> SetInterfaceMode env (interface_index ap) STATION_MODE
                   then (False, tr3)
                   else (True, tr3))"











section \<open>Access-point interfaces of the Server\<close>

definition createApInterface ::
  "Env \<Rightarrow> handle option \<Rightarrow> Server \<Rightarrow> Status \<times> handle option \<times> Server" where
  "createApInterface env created_interface s =
     (case SetupInterface env s of
        (Inl e, s1) \<Rightarrow> (ok, created_interface, s1)
      | (Inr interface, s1) \<Rightarrow>
          (let b = next_handle s1;
               (ap, tr) = ApInterfaceImpl_new (name interface) (index interface) b (calls s1);
               s2 = s1\<lparr>next_handle := Suc b, calls := tr\<rparr>;
               s3 = s2\<lparr>ap_interfaces := ap_interfaces s2 @ [ap]\<rparr>;
               s4 = BroadcastApInterfaceReady (ap_handle (last (ap_interfaces s3))) s3
           in (ok, Some b, s4)))"

text \<open>The loop of \<^verbatim>\<open>QcSetupInterface\<close> over the snapshot.\<close>

fun first_named :: "string \<Rightarrow> InterfaceInfo list \<Rightarrow> InterfaceInfo option" where
  "first_named ifname [] = None"
| "first_named ifname (iface # rest) =
     (if StartsWith (name iface) ifname then Some iface else first_named ifname rest)"

definition QcSetupInterface ::
  "Env \<Rightarrow> string \<Rightarrow> Server \<Rightarrow> (setup_error + InterfaceInfo) \<times> Server" where
  "QcSetupInterface env ifname s =
     (case RefreshWiphyIndex env s of
        (False, s1) \<Rightarrow> (Inl FailedToGetWiphyIndex, s1)
      | (True, s1) \<Rightarrow>
          (let s2 = do_call (SubscribeRegDomainChange_call (wiphy_index s1)) s1;
               s3 = do_call (GetInterfaces_call (wiphy_index s2)) (s2\<lparr>interfaces := []\<rparr>);
               (success, ifaces) = GetInterfaces env (wiphy_index s2);
               s4 = s3\<lparr>interfaces := ifaces\<rparr>
           in if \<not> success then (Inl FailedToGetInterfaces, s4)
              else case first_named ifname (interfaces s4) of
                     Some iface \<Rightarrow> (Inr iface, s4)
                   | None \<Rightarrow>
                       (let s5 = do_call (if_nametoindex_call ifname) s4;
                            br_index = if_nametoindex env ifname
                        in if br_index = 0 then (Inl NoUsableInterface, s5)
                           else
                             let s6 = do_call (linux_get_ifhwaddr_call ifname) s5;
                                 (rc, mac_addr) = linux_get_ifhwaddr env ifname
                             in if rc = 0
                                then (Inr \<lparr>index = br_index, name = ifname,
                                           mac_address = c_str (take 6 mac_addr)\<rparr>, s6)
                                else (Inl NoUsableInterface, s6))))"

definition QcCreateApInterface ::
  "Env \<Rightarrow> uint8_t list \<Rightarrow> handle option \<Rightarrow> Server \<Rightarrow> Status \<times> handle option \<times> Server" where
  "QcCreateApInterface env ifname created_interface s =
     (case QcSetupInterface env (c_str ifname) s of
        (Inl e, s1) \<Rightarrow> (ok, created_interface, s1)
      | (Inr interface, s1) \<Rightarrow>
          (let b = next_handle s1;
               (ap, tr) = ApInterfaceImpl_new (name interface) (index interface) b (calls s1);
               s2 = s1\<lparr>next_handle := Suc b, calls := tr\<rparr>;
               s3 = s2\<lparr>ap_interfaces := ap_interfaces s2 @ [ap]\<rparr>;
               s4 = BroadcastApInterfaceReady (ap_handle (last (ap_interfaces s3))) s3
           in (ok, Some b, s4)))"

section \<open>Tearing interfaces down\<close>

text \<open>
  \<^verbatim>\<open>vector::clear()\<close> runs the destructor of every element. libc++, the standard
  library of the platform, destroys the elements from the last to the first. The destructor of
  \<^verbatim>\<open>ClientInterfaceImpl\<close> is not among the sources: the model records that it ran.
\<close>

definition clear_client_interfaces :: "Server \<Rightarrow> Server" where
  "clear_client_interfaces s =
     s\<lparr>client_interfaces := [],
       calls := calls s @
         map (\<lambda>it. ClientInterfaceImpl_delete_call (client_handle it))
             (rev (client_interfaces s))\<rparr>"

definition clear_ap_interfaces :: "Server \<Rightarrow> Server" where
  "clear_ap_interfaces s =
     s\<lparr>ap_interfaces := [],
       calls := foldl (\<lambda>tr it. ApInterfaceImpl_delete it tr) (calls s) (rev (ap_interfaces s))\<rparr>"

definition MarkDownAllInterfaces :: "Env \<Rightarrow> Server \<Rightarrow> Server" where
  "MarkDownAllInterfaces env s =
     (let s1 = do_call (GetWiphyIndexWithInterfaceName_call kBaseIfName) s
      in case GetWiphyIndexWithInterfaceName env kBaseIfName of
           None \<Rightarrow> s1
         | Some w \<Rightarrow>
             (let s2 = do_call (GetInterfaces_call w) s1;
                  (success, ifaces) = GetInterfaces env w
              in if success
                 then foldl (\<lambda>st interface. do_call (SetUpState_call (c_str (name interface)) False) st)
                            s2 ifaces
                 else s2))"

definition tearDownStaInterfaces :: "Server \<Rightarrow> Status \<times> Server" where
  "tearDownStaInterfaces s =
     (let s1 = foldl (\<lambda>st it. BroadcastClientInterfaceTornDown (client_handle it) st)
                     s (client_interfaces s)
      in (ok, clear_client_interfaces s1))"

definition tearDownApInterfaces :: "Server \<Rightarrow> Status \<times> Server" where
  "tearDownApInterfaces s =
     (let s1 = foldl (\<lambda>st it. BroadcastApInterfaceTornDown (ap_handle it) st)
                     s (ap_interfaces s)
      in (ok, clear_ap_interfaces s1))"

definition tearDownInterfaces :: "Env \<Rightarrow> Server \<Rightarrow> Status \<times> Server" where
  "tearDownInterfaces env s =
     (let s1 = foldl (\<lambda>st it. BroadcastClientInterfaceTornDown (client_handle it) st)
                     s (client_interfaces s);
          s2 = clear_client_interfaces s1;
          s3 = foldl (\<lambda>st it. BroadcastApInterfaceTornDown (ap_handle it) st)
                     s2 (ap_interfaces s2);
          s4 = clear_ap_interfaces s3;
          s5 = MarkDownAllInterfaces env s4;
          s6 = do_call (UnsubscribeRegDomainChange_call (wiphy_index s5)) s5
      in (ok, s6))"

section \<open>The listener registry\<close>

text \<open>The loop of \<^verbatim>\<open>RegisterCallback\<close>: is some entry the same object?\<close>

fun is_registered :: "callback \<Rightarrow> callback list \<Rightarrow> bool" where
  "is_registered cb [] = False"
| "is_registered cb (it # rest) = (if cb = it then True else is_registered cb rest)"

definition RegisterCallback :: "callback \<Rightarrow> Server \<Rightarrow> Status \<times> Server" where
  "RegisterCallback cb s =
     (if is_registered cb (interface_event_callbacks s) then (ok, s)
      else (ok, s\<lparr>interface_event_callbacks := interface_event_callbacks s @ [cb]\<rparr>))"

text \<open>The loop of \<^verbatim>\<open>UnregisterCallback\<close>: erase at the first entry that is the
  same object; \<open>None\<close> when the loop runs to the end.\<close>

fun erase_first :: "callback \<Rightarrow> callback list \<Rightarrow> callback list option" where
  "erase_first cb [] = None"
| "erase_first cb (it # rest) =
     (if cb = it then Some rest
      else case erase_first cb rest of None \<Rightarrow> None | Some rest' \<Rightarrow> Some (it # rest'))"

definition UnregisterCallback :: "callback \<Rightarrow> Server \<Rightarrow> Status \<times> Server" where
  "UnregisterCallback cb s =
     (case erase_first cb (interface_event_callbacks s) of
        Some cbs \<Rightarrow> (ok, s\<lparr>interface_event_callbacks := cbs\<rparr>)
      | None \<Rightarrow> (ok, s))"

section \<open>The raw command of the vendor build\<close>

text \<open>\<^verbatim>\<open>isspace\<close> in the C locale, which is what the extraction of a
  \<^verbatim>\<open>std::string\<close> from a stream skips and stops at.\<close>

definition isspace :: "char \<Rightarrow> bool" where
  "isspace c = (c = CHR '' '' \<or> c = CHR 0x09 \<or> c = CHR 0x0A \<or> c = CHR 0x0B \<or>
                c = CHR 0x0C \<or> c = CHR 0x0D)"

text \<open>What \<^verbatim>\<open>istream_iterator<std::string>\<close> yields: the maximal runs of
  characters that are not white space. \<open>cur\<close> is the token being read.\<close>

fun tokens_from :: "string \<Rightarrow> string \<Rightarrow> string list" where
  "tokens_from cur [] = (if cur = [] then [] else [cur])"
| "tokens_from cur (c # cs) =
     (if isspace c
      then (if cur = [] then tokens_from [] cs else cur # tokens_from [] cs)
      else tokens_from (cur @ [c]) cs)"

definition tokenize :: "uint8_t list \<Rightarrow> string list" where
  "tokenize cmd = tokens_from [] cmd"

definition max_arg_size :: nat where
  "max_arg_size = 10"

text \<open>The loop that copies the tokens into \<^verbatim>\<open>data\<close>; \<^verbatim>\<open>argc\<close> is the
  number of entries filled so far. \<open>None\<close> is the early return at
  \<^verbatim>\<open>"Command too long"\<close>.\<close>

fun copy_tokens :: "string list \<Rightarrow> string list \<Rightarrow> string list option" where
  "copy_tokens data [] = Some data"
| "copy_tokens data (s # rest) =
     (if length data \<ge> max_arg_size then None
      else copy_tokens (data @ [c_str s]) rest)"

text \<open>The body of both \<^verbatim>\<open>stopap\<close> branches, which differ in the flag only.\<close>

definition stopap :: "Env \<Rightarrow> bool \<Rightarrow> Server \<Rightarrow> bool \<times> Server" where
  "stopap env dual s =
     (if ap_interfaces s \<noteq> [] then
        (case ap_interface s of
           None \<Rightarrow> (False, s)
         | Some b \<Rightarrow>
             (let s1 = do_call (stopHostapd_call b dual) s
              in if isOk (fst (stopHostapd env b dual))
                 then (True, (clear_ap_interfaces s1)\<lparr>ap_interface := None\<rparr>)
                 else (False, s1)))
      else (False, s))"

text \<open>The branch \<^verbatim>\<open>startap dual\<close> with its three further arguments present. The
  first creation stores into the static \<open>ap_interface\<close>, the other two into the local
  \<^verbatim>\<open>dual_ap_interface\<close>.\<close>

definition startap_dual :: "Env \<Rightarrow> string \<Rightarrow> string \<Rightarrow> string \<Rightarrow> Server \<Rightarrow> bool \<times> Server" where
  "startap_dual env bridge sap0 sap1 s =
     (let dual_ap_interface = None;
          (st1, created1, s1') = QcCreateApInterface env bridge (ap_interface s) s;
          s1 = s1'\<lparr>ap_interface := created1\<rparr>
      in if \<not> isOk st1 then (False, s1)
         else
           let (st2, dual_ap_interface2, s2) = QcCreateApInterface env sap0 dual_ap_interface s1
           in if \<not> isOk st2 then (False, s2)
              else
                let (st3, dual_ap_interface3, s3) =
                      QcCreateApInterface env sap1 dual_ap_interface2 s2
                in if \<not> isOk st3 then (False, s3)
                   else
                     (case ap_interface s3 of
                        None \<Rightarrow> (False, s3)
                      | Some b \<Rightarrow>
                          (let s4 = do_call (startHostapd_call b True) s3
                           in if isOk (fst (startHostapd env b True)) then (True, s4)
                              else (False, s4))))"

text \<open>The condition of the two-token \<^verbatim>\<open>startap\<close> branch after the test of
  \<^verbatim>\<open>argv[1]\<close>: whether it holds, what \<^verbatim>\<open>*out_success\<close> is afterwards, the
  state.\<close>

definition startap_single :: "Env \<Rightarrow> Server \<Rightarrow> bool \<times> bool \<times> Server" where
  "startap_single env s =
     (let (st, created, s1') = createApInterface env (ap_interface s) s;
          s1 = s1'\<lparr>ap_interface := created\<rparr>
      in if \<not> isOk st then (False, False, s1)
         else
           (case ap_interface s1 of
              None \<Rightarrow> (False, False, s1)
            | Some b \<Rightarrow>
                (let s2 = do_call (startHostapd_call b False) s1;
                     (st2, written) = startHostapd env b False;
                     out_success = (case written of None \<Rightarrow> False | Some v \<Rightarrow> v)
                 in (isOk st2, out_success, s2))))"

text \<open>The \<^verbatim>\<open>argc > 2\<close> chain; the result is \<^verbatim>\<open>*out_success\<close> and the
  state.\<close>

definition dispatch_long :: "Env \<Rightarrow> string list \<Rightarrow> Server \<Rightarrow> bool \<times> Server" where
  "dispatch_long env argv s =
     (if argv ! 1 = ''qccmd''
      then (qsap_hostd_exec env argv = 0, do_call (qsap_hostd_exec_call argv) s)
      else
        let s1 = (if argv ! 1 = ''create''
                  then do_call (qsap_add_or_remove_interface_call (argv ! 2) 1) s else s)
        in if argv ! 1 = ''create'' \<and> qsap_add_or_remove_interface env (argv ! 2) 1 \<noteq> 0
           then (True, s1)
           else
             let s2 = (if argv ! 1 = ''remove''
                       then do_call (qsap_add_or_remove_interface_call (argv ! 2) 0) s1 else s1)
             in if argv ! 1 = ''remove'' \<and> qsap_add_or_remove_interface env (argv ! 2) 0 \<noteq> 0
                then (True, s2)
                else if argv ! 1 = ''bridge''
                then (qsap_control_bridge env argv = 0, do_call (qsap_control_bridge_call argv) s2)
                else if argv ! 1 = ''startap'' \<and> argv ! 2 = ''dual''
                then (if length argv < 6 then (False, s2)
                      else startap_dual env (argv ! 3) (argv ! 4) (argv ! 5) s2)
                else if argv ! 1 = ''stopap'' \<and> argv ! 2 = ''dual''
                then stopap env True s2
                else if argv ! 1 = ''setsoftap''
                then (qsapsetSoftap env argv = 0, do_call (qsapsetSoftap_call argv) s2)
                else (False, s2))"

text \<open>The \<^verbatim>\<open>argc > 1\<close> chain.\<close>

definition dispatch_short :: "Env \<Rightarrow> string list \<Rightarrow> Server \<Rightarrow> bool \<times> Server" where
  "dispatch_short env argv s =
     (let (started, out_success, s1) =
            (if argv ! 1 = ''startap'' then startap_single env s else (False, False, s))
      in if started then (True, s1)
         else if argv ! 1 = ''stopap'' then stopap env False s1
         else (out_success, s1))"

text \<open>\<^verbatim>\<open>setHostapdParam\<close>: the status, \<^verbatim>\<open>*out_success\<close> and the state.
  \<^verbatim>\<open>*out_success\<close> is set to false first, so its value before the call plays no
  part.\<close>

definition setHostapdParam :: "Env \<Rightarrow> uint8_t list \<Rightarrow> Server \<Rightarrow> Status \<times> bool \<times> Server" where
  "setHostapdParam env cmd s =
     (case copy_tokens [] (tokenize cmd) of
        None \<Rightarrow> (ok, False, s)
      | Some argv \<Rightarrow>
          (let argc = length argv
           in if argc > 2 then (let (out_success, s1) = dispatch_long env argv s
                                in (ok, out_success, s1))
              else if argc > 1 then (let (out_success, s1) = dispatch_short env argv s
                                     in (ok, out_success, s1))
              else (ok, False, s)))"

section \<open>Test fixtures\<close>

text \<open>\<open>n\<close> attempts to create a station interface, one after the other, each with a
  null out-parameter; the status and out-parameter of each attempt, and the final state.\<close>

fun createClientInterface_attempts ::
  "Env \<Rightarrow> nat \<Rightarrow> Server \<Rightarrow> (Status \<times> handle option) list \<times> Server" where
  "createClientInterface_attempts env 0 s = ([], s)"
| "createClientInterface_attempts env (Suc n) s =
     (let (st, created, s1) = createClientInterface env None s;
          (rest, s2) = createClientInterface_attempts env n s1
      in ((st, created) # rest, s2))"

text \<open>A freshly constructed Server: no interfaces, no listeners, no calls made.\<close>

definition Server_new :: Server where
  "Server_new = \<lparr>wiphy_index = 0, interfaces = [], client_interfaces = [],
                 ap_interfaces = [], interface_event_callbacks = [],
                 ap_interface = None, next_handle = 0, calls = []\<rparr>"

definition iface :: "nat \<Rightarrow> string \<Rightarrow> InterfaceInfo" where
  "iface i n = \<lparr>index = of_nat i, name = n, mac_address = []\<rparr>"

text \<open>An environment in which every collaborator succeeds: the radio of
  \<^verbatim>\<open>wlan0\<close> is wiphy 0 and reports four interfaces.\<close>

definition env_good :: Env where
  "env_good =
     \<lparr>GetWiphyIndexWithInterfaceName = (\<lambda>n. if n = ''wlan0'' then Some 0 else None),
      GetInterfaces = (\<lambda>w. (True, [iface 1 ''p2p0'', iface 2 ''aware_data0'',
                                    iface 3 ''softap0'', iface 4 ''wlan1''])),
      SetUpState = (\<lambda>n up. True),
      SetInterfaceMode = (\<lambda>i m. True),
      HostapdManager_StopHostapd = True,
      if_nametoindex = (\<lambda>n. 0),
      linux_get_ifhwaddr = (\<lambda>n. (1, [])),
      qsap_hostd_exec = (\<lambda>argv. 0),
      qsap_add_or_remove_interface = (\<lambda>n add. 1),
      qsap_control_bridge = (\<lambda>argv. 0),
      qsapsetSoftap = (\<lambda>argv. 0),
      startHostapd = (\<lambda>b dual. (ok, Some True)),
      stopHostapd = (\<lambda>b dual. (ok, Some True))\<rparr>"

text \<open>A Server that holds one station interface on \<^verbatim>\<open>wlan1\<close> and one listener.\<close>

definition Server_with_station :: Server where
  "Server_with_station =
     Server_new\<lparr>client_interfaces :=
                   [\<lparr>client_wiphy_index = 0, client_interface_name = ''wlan1'',
                     client_interface_index = 4, client_interface_mac_addr = [],
                     client_handle = 0\<rparr>],
                 interface_event_callbacks := [7],
                 next_handle := 1\<rparr>"

text \<open>An access-point controller on \<^verbatim>\<open>wlan0\<close> (interface index 3), and a Server
  that holds it and has one listener.\<close>

definition ap_wlan0 :: ApInterfaceImpl where
  "ap_wlan0 = \<lparr>interface_name = ''wlan0'', interface_index = 3, ap_handle = 0,
               number_of_associated_stations = 0\<rparr>"

definition Server_with_ap :: Server where
  "Server_with_ap =
     Server_new\<lparr>ap_interfaces := [ap_wlan0],
                 interface_event_callbacks := [7],
                 next_handle := 1\<rparr>"

text \<open>The hostapd manager fails to stop the daemon; everything else succeeds.\<close>

definition env_stop_fails :: Env where
  "env_stop_fails = env_good\<lparr>HostapdManager_StopHostapd := False\<rparr>"

text \<open>
  Environments for the dual access-point command. The bridge \<^verbatim>\<open>br0\<close> is not
  reported by the radio and is found through \<^verbatim>\<open>if_nametoindex\<close>. In
  \<open>env_dual\<close> the radio reports \<^verbatim>\<open>sap0\<close> and \<^verbatim>\<open>sap1\<close>; in
  \<open>env_dual_no_sap0\<close> it reports \<^verbatim>\<open>sap1\<close> only, and no interface named
  \<^verbatim>\<open>sap0\<close> exists.
\<close>

definition env_dual :: Env where
  "env_dual =
     env_good\<lparr>GetInterfaces := (\<lambda>w. (True, [iface 4 ''sap0'', iface 5 ''sap1''])),
               if_nametoindex := (\<lambda>n. if n = ''br0'' then 9 else 0),
               linux_get_ifhwaddr := (\<lambda>n. if n = ''br0'' then (0, ''abcdef'') else (1, []))\<rparr>"

definition env_dual_no_sap0 :: Env where
  "env_dual_no_sap0 = env_dual\<lparr>GetInterfaces := (\<lambda>w. (True, [iface 5 ''sap1'']))\<rparr>"

definition dual_cmd :: "uint8_t list" where
  "dual_cmd = ''cmd startap dual br0 sap0 sap1''"

section \<open>The single station interface\<close>

lemma createClientInterface_conflict_once:
  "client_interfaces s \<noteq> [] \<Longrightarrow> createClientInterface env created s = (ok, created, s)"
  by (simp add: createClientInterface_def SetupInterface_def)

lemma createClientInterface_registers:
  "SetupInterface env s = (Inr i, s1) \<Longrightarrow>
   client_interfaces (snd (snd (createClientInterface env created s))) \<noteq> []"
  by (simp add: createClientInterface_def Let_def BroadcastClientInterfaceReady_def do_call_def)

text \<open>
  C1. In every state with at least one station controller registered,
  \<^verbatim>\<open>SetupInterface\<close> stops at its first test (the conflict) and
  \<^verbatim>\<open>createClientInterface\<close> returns with the out-parameter as it was and the whole
  state as it was: no call to any collaborator is added to the trace (no subscription, no
  snapshot fetch, no broadcast) and no controller is registered. Any number \<open>n\<close> of
  further attempts in a row end the same way. By \<open>createClientInterface_registers\<close> the
  state after a successful creation is such a state.
\<close>

theorem createClientInterface_conflict:
  assumes "client_interfaces s \<noteq> []"
  shows "SetupInterface env s = (Inl OtherInterfacesExist, s) \<and>
         createClientInterface env created s = (ok, created, s) \<and>
         createClientInterface_attempts env n s = (replicate n (ok, None), s)"
proof -
  have refused: "SetupInterface env s = (Inl OtherInterfacesExist, s)"
    using assms by (simp add: SetupInterface_def)
  have once: "\<And>c. createClientInterface env c s = (ok, c, s)"
    using assms by (rule createClientInterface_conflict_once)
  have many: "createClientInterface_attempts env n s = (replicate n (ok, None), s)"
    by (induction n) (simp_all add: once)
  from refused once many show ?thesis by simp
qed

theorem createClientInterface_conflict_witness:
  "client_interfaces Server_with_station \<noteq> [] \<and>
   SetupInterface env_good Server_with_station = (Inl OtherInterfacesExist, Server_with_station) \<and>
   createClientInterface env_good None Server_with_station = (ok, None, Server_with_station) \<and>
   createClientInterface_attempts env_good 3 Server_with_station =
     ([(ok, None), (ok, None), (ok, None)], Server_with_station)"
proof -
  have h: "client_interfaces Server_with_station \<noteq> []"
    by (simp add: Server_with_station_def Server_new_def)
  from createClientInterface_conflict [OF h, of env_good None 3] h
  show ?thesis by (simp add: numeral_3_eq_3)
qed

section \<open>Selecting the station interface\<close>

lemma first_usable_find:
  "first_usable ifaces =
     find (\<lambda>i. name i \<noteq> ''p2p0'' \<and> \<not> StartsWith (name i) ''aware_data'' \<and>
                \<not> StartsWith (name i) ''softap'') ifaces"
  by (induction ifaces) simp_all

lemma SetupInterface_snapshot:
  assumes "client_interfaces s = []"
    and "GetWiphyIndexWithInterfaceName env kBaseIfName = Some w"
    and "GetInterfaces env w = (True, ifaces)"
  shows "SetupInterface env s =
           ((case first_usable ifaces of Some i \<Rightarrow> Inr i | None \<Rightarrow> Inl NoUsableInterface),
            s\<lparr>wiphy_index := w, interfaces := ifaces,
              calls := calls s @ [GetWiphyIndexWithInterfaceName_call kBaseIfName,
                                  SubscribeRegDomainChange_call w, GetInterfaces_call w]\<rparr>)"
  using assms
  by (simp add: SetupInterface_def RefreshWiphyIndex_def do_call_def Let_def
           split: option.splits)

text \<open>
  C9. When no station controller exists, the radio of the base interface resolves and the
  snapshot is fetched, \<^verbatim>\<open>SetupInterface\<close> selects the first descriptor of the
  snapshot whose name is not \<^verbatim>\<open>p2p0\<close> and does not start with
  \<^verbatim>\<open>aware_data\<close> or \<^verbatim>\<open>softap\<close>, and \<^verbatim>\<open>createClientInterface\<close>
  registers a station controller for exactly that descriptor; when no descriptor
  qualifies, set-up fails with the no-usable-interface error, the out-parameter stays as
  it was and no controller is registered. The witness is the snapshot
  \<^verbatim>\<open>p2p0, aware_data0, softap0, wlan1\<close>, where \<^verbatim>\<open>wlan1\<close> is selected.
\<close>

theorem SetupInterface_selects_first_usable:
  assumes "client_interfaces s = []"
    and "GetWiphyIndexWithInterfaceName env kBaseIfName = Some w"
    and "GetInterfaces env w = (True, ifaces)"
  shows "(case find (\<lambda>i. name i \<noteq> ''p2p0'' \<and> \<not> StartsWith (name i) ''aware_data'' \<and>
                        \<not> StartsWith (name i) ''softap'') ifaces of
            Some i \<Rightarrow>
              fst (SetupInterface env s) = Inr i \<and>
              fst (snd (createClientInterface env created s)) = Some (next_handle s) \<and>
              client_interfaces (snd (snd (createClientInterface env created s))) =
                [\<lparr>client_wiphy_index = w, client_interface_name = name i,
                  client_interface_index = index i, client_interface_mac_addr = mac_address i,
                  client_handle = next_handle s\<rparr>]
          | None \<Rightarrow>
              fst (SetupInterface env s) = Inl NoUsableInterface \<and>
              fst (snd (createClientInterface env created s)) = created \<and>
              client_interfaces (snd (snd (createClientInterface env created s))) = [])"
  using assms
  by (simp add: SetupInterface_snapshot first_usable_find [symmetric] createClientInterface_def
        Let_def BroadcastClientInterfaceReady_def do_call_def split: option.splits)

theorem SetupInterface_selects_first_usable_witness:
  "client_interfaces Server_new = [] \<and>
   GetWiphyIndexWithInterfaceName env_good kBaseIfName = Some 0 \<and>
   GetInterfaces env_good 0 =
     (True, [iface 1 ''p2p0'', iface 2 ''aware_data0'', iface 3 ''softap0'', iface 4 ''wlan1'']) \<and>
   fst (SetupInterface env_good Server_new) = Inr (iface 4 ''wlan1'') \<and>
   map client_interface_name
     (client_interfaces (snd (snd (createClientInterface env_good None Server_new)))) = [''wlan1'']"
proof -
  have h1: "client_interfaces Server_new = []"
    by (simp add: Server_new_def)
  have h2: "GetWiphyIndexWithInterfaceName env_good kBaseIfName = Some 0"
    by (simp add: env_good_def kBaseIfName_def)
  have h3: "GetInterfaces env_good 0 =
     (True, [iface 1 ''p2p0'', iface 2 ''aware_data0'', iface 3 ''softap0'', iface 4 ''wlan1''])"
    by (simp add: env_good_def)
  from SetupInterface_selects_first_usable [OF h1 h2 h3, of None] h1 h2 h3
  show ?thesis by (simp add: iface_def StartsWith_def)
qed

section \<open>The bound on the length of a raw command\<close>

lemma copy_tokens_eq:
  "length data \<le> max_arg_size \<Longrightarrow>
   copy_tokens data toks =
     (if length data + length toks > max_arg_size then None
      else Some (data @ map c_str toks))"
  by (induction toks arbitrary: data) (auto simp: max_arg_size_def)

text \<open>
  C8. A command whose bytes split on white space into more than 10 tokens makes
  \<^verbatim>\<open>setHostapdParam\<close> return with \<^verbatim>\<open>*out_success\<close> false and the state as it
  was, trace of collaborator calls included, whatever the tokens are and whatever the
  environment would answer.
\<close>

theorem setHostapdParam_too_long:
  assumes "length (tokenize cmd) > 10"
  shows "setHostapdParam env cmd s = (ok, False, s)"
  using assms by (simp add: setHostapdParam_def copy_tokens_eq max_arg_size_def)

theorem setHostapdParam_too_long_witness:
  "length (tokenize ''a b c d e f g h i j k'') > 10 \<and>
   setHostapdParam env_good ''a b c d e f g h i j k'' Server_new = (ok, False, Server_new)"
proof -
  have h: "length (tokenize ''a b c d e f g h i j k'') > 10"
    by (simp add: tokenize_def isspace_def)
  from setHostapdParam_too_long [OF h, of env_good Server_new] h
  show ?thesis by simp
qed

section \<open>The listener registry is free of duplicates\<close>


lemma erase_first_eq:
  "erase_first cb cbs = (if cb \<in> set cbs then Some (remove1 cb cbs) else None)"
  by (induction cbs) auto


lemma UnregisterCallback_distinct:
  "distinct (interface_event_callbacks s) \<Longrightarrow>
   distinct (interface_event_callbacks (snd (UnregisterCallback cb s)))"
  by (simp add: UnregisterCallback_def erase_first_eq)






section \<open>The counter of associated stations\<close>








section \<open>Stopping hostapd\<close>

text \<open>
  C3, as the specification states it, fails: when the hostapd manager fails to stop the
  daemon, \<^verbatim>\<open>StopHostapd\<close> returns false at once; the interface is not set down and
  its mode is not reset, and the operation has failed although the mode reset did not.
\<close>

theorem StopHostapd_counterexample:
  "StopHostapd env_stop_fails ap_wlan0 [] = (False, [HostapdManager_StopHostapd_call]) \<and>
   SetUpState_call ''wlan0'' False \<notin> set (snd (StopHostapd env_stop_fails ap_wlan0 [])) \<and>
   SetInterfaceMode_call 3 STATION_MODE \<notin> set (snd (StopHostapd env_stop_fails ap_wlan0 []))"
  by (simp add: StopHostapd_def env_stop_fails_def env_good_def ap_wlan0_def)

text \<open>
  C3, amended. \<^verbatim>\<open>StopHostapd\<close> runs three steps in this order and stops at the first
  that fails: it asks the hostapd manager to stop the daemon; only if that succeeded it
  sets the interface down; only if that succeeded too it sets the interface mode back to
  station mode. It returns true exactly when all three steps succeeded.
\<close>

theorem StopHostapd_stops_at_first_failure:
  "StopHostapd env ap tr =
     (HostapdManager_StopHostapd env \<and>
      SetUpState env (c_str (interface_name ap)) False \<and>
      SetInterfaceMode env (interface_index ap) STATION_MODE,
      tr @ [HostapdManager_StopHostapd_call] @
        (if HostapdManager_StopHostapd env
         then [SetUpState_call (c_str (interface_name ap)) False] @
              (if SetUpState env (c_str (interface_name ap)) False
               then [SetInterfaceMode_call (interface_index ap) STATION_MODE]
               else [])
         else []))"
  by (simp add: StopHostapd_def Let_def)

section \<open>Creating an access-point interface\<close>

text \<open>
  C4, as the specification states it, fails twice. With a station controller registered,
  \<^verbatim>\<open>createApInterface\<close> is refused: nothing is created and the state is as it was.
  And on a fresh Server whose snapshot is \<^verbatim>\<open>p2p0, aware_data0, softap0, wlan1\<close>
  the access point is created on \<^verbatim>\<open>wlan1\<close>: the three excluded names are skipped.
\<close>

theorem createApInterface_counterexample:
  "client_interfaces Server_with_station \<noteq> [] \<and>
   createApInterface env_good None Server_with_station = (ok, None, Server_with_station) \<and>
   map interface_name (ap_interfaces (snd (snd (createApInterface env_good None Server_new))))
     = [''wlan1'']"
  by (simp add: createApInterface_def SetupInterface_def RefreshWiphyIndex_def
        Server_with_station_def Server_new_def env_good_def iface_def StartsWith_def
        kBaseIfName_def do_call_def ApInterfaceImpl_new_def BroadcastApInterfaceReady_def)

text \<open>
  C4, amended. \<^verbatim>\<open>createApInterface\<close> goes through the very
  \<^verbatim>\<open>SetupInterface\<close> of station creation: it is refused, with no change of state,
  while a station controller is registered, and it selects the first descriptor of the
  snapshot that passes the station exclusion list. The access-point controllers that
  exist already play no part: when no station controller is registered and the radio and
  the snapshot resolve, a new controller for the selected descriptor is appended to
  whatever access-point controllers there are.
\<close>

theorem createApInterface_uses_SetupInterface:
  "(client_interfaces s \<noteq> [] \<longrightarrow> createApInterface env created s = (ok, created, s)) \<and>
   (client_interfaces s = [] \<and>
    GetWiphyIndexWithInterfaceName env kBaseIfName = Some w \<and>
    GetInterfaces env w = (True, ifaces) \<longrightarrow>
      (case find (\<lambda>i. name i \<noteq> ''p2p0'' \<and> \<not> StartsWith (name i) ''aware_data'' \<and>
                         \<not> StartsWith (name i) ''softap'') ifaces of
         Some i \<Rightarrow>
           fst (snd (createApInterface env created s)) = Some (next_handle s) \<and>
           ap_interfaces (snd (snd (createApInterface env created s))) =
             ap_interfaces s @
               [\<lparr>interface_name = name i, interface_index = index i,
                 ap_handle = next_handle s, number_of_associated_stations = 0\<rparr>]
       | None \<Rightarrow>
           fst (snd (createApInterface env created s)) = created \<and>
           ap_interfaces (snd (snd (createApInterface env created s))) = ap_interfaces s))"
proof -
  have refused: "client_interfaces s \<noteq> [] \<longrightarrow> createApInterface env created s = (ok, created, s)"
    by (simp add: createApInterface_def SetupInterface_def)
  have permitted: "client_interfaces s = [] \<and>
    GetWiphyIndexWithInterfaceName env kBaseIfName = Some w \<and>
    GetInterfaces env w = (True, ifaces) \<longrightarrow>
      (case find (\<lambda>i. name i \<noteq> ''p2p0'' \<and> \<not> StartsWith (name i) ''aware_data'' \<and>
                         \<not> StartsWith (name i) ''softap'') ifaces of
         Some i \<Rightarrow>
           fst (snd (createApInterface env created s)) = Some (next_handle s) \<and>
           ap_interfaces (snd (snd (createApInterface env created s))) =
             ap_interfaces s @
               [\<lparr>interface_name = name i, interface_index = index i,
                 ap_handle = next_handle s, number_of_associated_stations = 0\<rparr>]
       | None \<Rightarrow>
           fst (snd (createApInterface env created s)) = created \<and>
           ap_interfaces (snd (snd (createApInterface env created s))) = ap_interfaces s)"
    by (simp add: SetupInterface_snapshot first_usable_find [symmetric] createApInterface_def
          Let_def BroadcastApInterfaceReady_def ApInterfaceImpl_new_def split: option.splits)
  from refused permitted show ?thesis by blast
qed

theorem createApInterface_uses_SetupInterface_witness:
  "client_interfaces Server_with_ap = [] \<and>
   GetWiphyIndexWithInterfaceName env_good kBaseIfName = Some 0 \<and>
   GetInterfaces env_good 0 =
     (True, [iface 1 ''p2p0'', iface 2 ''aware_data0'', iface 3 ''softap0'', iface 4 ''wlan1'']) \<and>
   fst (snd (createApInterface env_good None Server_with_ap)) = Some 1 \<and>
   ap_interfaces (snd (snd (createApInterface env_good None Server_with_ap))) =
     [ap_wlan0,
      \<lparr>interface_name = ''wlan1'', interface_index = 4, ap_handle = 1,
        number_of_associated_stations = 0\<rparr>]"
proof -
  have h1: "client_interfaces Server_with_ap = []"
    by (simp add: Server_with_ap_def Server_new_def)
  have h2: "GetWiphyIndexWithInterfaceName env_good kBaseIfName = Some 0"
    by (simp add: env_good_def kBaseIfName_def)
  have h3: "GetInterfaces env_good 0 =
     (True, [iface 1 ''p2p0'', iface 2 ''aware_data0'', iface 3 ''softap0'', iface 4 ''wlan1''])"
    by (simp add: env_good_def)
  have m: "ap_interfaces Server_with_ap = [ap_wlan0]" "next_handle Server_with_ap = 1"
    by (simp_all add: Server_with_ap_def Server_new_def)
  from createApInterface_uses_SetupInterface
         [of Server_with_ap env_good None 0
             "[iface 1 ''p2p0'', iface 2 ''aware_data0'', iface 3 ''softap0'', iface 4 ''wlan1'']"]
       h1 h2 h3 m
  show ?thesis by (simp add: iface_def StartsWith_def)
qed

section \<open>The order of teardown\<close>

lemma foldl_BroadcastApInterfaceTornDown:
  "foldl (\<lambda>st it. BroadcastApInterfaceTornDown (ap_handle it) st) s aps =
     s\<lparr>calls := calls s @
         concat (map (\<lambda>it. map (\<lambda>cb. OnApTorndownEvent_call cb (ap_handle it))
                                (interface_event_callbacks s)) aps)\<rparr>"
  by (induction aps arbitrary: s) (simp_all add: BroadcastApInterfaceTornDown_def)

lemma foldl_ApInterfaceImpl_delete:
  "foldl (\<lambda>tr it. ApInterfaceImpl_delete it tr) tr aps =
     tr @ concat (map (\<lambda>it. [NotifyImplDead_call (ap_handle it),
                              SetUpState_call (c_str (interface_name it)) False,
                              UnsubscribeStationEvent_call (interface_index it)]) aps)"
  by (induction aps arbitrary: tr) (simp_all add: ApInterfaceImpl_delete_def)

text \<open>
  C5, as the specification states it, fails. Tearing down a Server with one access-point
  controller and one listener makes four calls: the listener is told of the teardown, the
  controller's remote-call object is told that the implementation is dead, the interface
  is set down, and only then the station events are unsubscribed. No call stops the
  daemon.
\<close>

theorem tearDownApInterfaces_counterexample:
  "calls (snd (tearDownApInterfaces Server_with_ap)) =
     [OnApTorndownEvent_call 7 0, NotifyImplDead_call 0,
      SetUpState_call ''wlan0'' False, UnsubscribeStationEvent_call 3] \<and>
   HostapdManager_StopHostapd_call \<notin> set (calls (snd (tearDownApInterfaces Server_with_ap)))"
  by (simp add: tearDownApInterfaces_def clear_ap_interfaces_def Server_with_ap_def
        Server_new_def ap_wlan0_def BroadcastApInterfaceTornDown_def
        ApInterfaceImpl_delete_def c_str_def)

text \<open>
  C5, amended. \<^verbatim>\<open>tearDownApInterfaces\<close> first tells every listener of the teardown
  of every access-point controller, in the order of the collection, and then destroys the
  controllers, last to first. The destructor of a controller makes three calls in this
  order: it tells its remote-call object that the implementation is dead, it sets the
  kernel interface down, it unsubscribes from the station events of its interface index.
  So the mark-down precedes the unsubscribe, and the teardown does not stop the daemon.
\<close>

theorem tearDownApInterfaces_order:
  "tearDownApInterfaces s =
     (ok, s\<lparr>ap_interfaces := [],
            calls := calls s @
              concat (map (\<lambda>it. map (\<lambda>cb. OnApTorndownEvent_call cb (ap_handle it))
                                     (interface_event_callbacks s)) (ap_interfaces s)) @
              concat (map (\<lambda>it. [NotifyImplDead_call (ap_handle it),
                                   SetUpState_call (c_str (interface_name it)) False,
                                   UnsubscribeStationEvent_call (interface_index it)])
                          (rev (ap_interfaces s)))\<rparr>)"
  by (simp add: tearDownApInterfaces_def clear_ap_interfaces_def
        foldl_BroadcastApInterfaceTornDown foldl_ApInterfaceImpl_delete)

section \<open>The dual access-point command\<close>

lemma QcSetupInterface_ap_interface:
  "ap_interface (snd (QcSetupInterface env n s)) = ap_interface s"
  by (simp add: QcSetupInterface_def RefreshWiphyIndex_def do_call_def Let_def
           split: option.splits prod.splits)

lemma QcCreateApInterface_status: "fst (QcCreateApInterface env n c s) = ok"
  by (simp add: QcCreateApInterface_def Let_def split: prod.splits sum.splits)

lemma QcCreateApInterface_ap_interface:
  "ap_interface (snd (snd (QcCreateApInterface env n c s))) = ap_interface s"
proof (cases "QcSetupInterface env (c_str n) s")
  case (Pair r s1)
  with QcSetupInterface_ap_interface [of env "c_str n" s]
  have "ap_interface s1 = ap_interface s" by simp
  with Pair show ?thesis
    by (cases r)
       (simp_all add: QcCreateApInterface_def Let_def BroadcastApInterfaceReady_def
          split: prod.splits)
qed

text \<open>Whether \<^verbatim>\<open>startap dual\<close> reports success depends on the first creation and on
  the transport status of \<^verbatim>\<open>startHostapd\<close> only: every creation returns an OK status,
  so the second and the third are never seen to fail.\<close>

lemma startap_dual_result:
  "fst (startap_dual env bridge sap0 sap1 s) =
     (case fst (snd (QcCreateApInterface env bridge (ap_interface s) s)) of
        None \<Rightarrow> False
      | Some b \<Rightarrow> isOk (fst (startHostapd env b True)))"
proof -
  obtain st1 c1 s1 where q1: "QcCreateApInterface env bridge (ap_interface s) s = (st1, c1, s1)"
    by (cases "QcCreateApInterface env bridge (ap_interface s) s") auto
  obtain st2 c2 s2 where q2: "QcCreateApInterface env sap0 None (s1\<lparr>ap_interface := c1\<rparr>) = (st2, c2, s2)"
    by (cases "QcCreateApInterface env sap0 None (s1\<lparr>ap_interface := c1\<rparr>)") auto
  obtain st3 c3 s3 where q3: "QcCreateApInterface env sap1 c2 s2 = (st3, c3, s3)"
    by (cases "QcCreateApInterface env sap1 c2 s2") auto
  have ok1: "st1 = ok" using QcCreateApInterface_status [of env bridge "ap_interface s" s] q1 by simp
  have ok2: "st2 = ok"
    using QcCreateApInterface_status [of env sap0 None "s1\<lparr>ap_interface := c1\<rparr>"] q2 by simp
  have ok3: "st3 = ok" using QcCreateApInterface_status [of env sap1 c2 s2] q3 by simp
  have "ap_interface s2 = c1"
    using QcCreateApInterface_ap_interface [of env sap0 None "s1\<lparr>ap_interface := c1\<rparr>"] q2
    by simp
  then have keep: "ap_interface s3 = c1"
    using QcCreateApInterface_ap_interface [of env sap1 c2 s2] q3 by simp
  show ?thesis
    by (simp add: startap_dual_def q1 q2 q3 ok1 ok2 ok3 keep Let_def split: option.splits)
qed

text \<open>The first half of C6 holds: when the bridge and both access points are created and
  \<^verbatim>\<open>startHostapd\<close> returns an OK status, the command reports success and three
  controllers are registered.\<close>

lemma setHostapdParam_dual_all_created:
  "tokenize dual_cmd = [''cmd'', ''startap'', ''dual'', ''br0'', ''sap0'', ''sap1''] \<and>
   fst (snd (setHostapdParam env_dual dual_cmd Server_new)) = True \<and>
   map interface_name (ap_interfaces (snd (snd (setHostapdParam env_dual dual_cmd Server_new))))
     = [''br0'', ''sap0'', ''sap1'']"
  by code_simp

text \<open>
  C6, second half, on the code. The command is
  \<^verbatim>\<open>cmd startap dual br0 sap0 sap1\<close>; the bridge is created; the second creation
  fails, since no interface \<^verbatim>\<open>sap0\<close> exists (its out-parameter stays null and no
  controller is added); the third creation runs all the same. The controller of the first
  creation stays registered, as the claim says, but \<^verbatim>\<open>*out_success\<close> is true, where
  the claim says false.
\<close>

theorem setHostapdParam_dual_second_creation_fails:
  "tokenize dual_cmd = [''cmd'', ''startap'', ''dual'', ''br0'', ''sap0'', ''sap1''] \<and>
   fst (snd (QcCreateApInterface env_dual_no_sap0 ''br0'' None Server_new)) = Some 0 \<and>
   fst (snd (QcCreateApInterface env_dual_no_sap0 ''sap0'' None
               (snd (snd (QcCreateApInterface env_dual_no_sap0 ''br0'' None Server_new))))) = None \<and>
   fst (snd (setHostapdParam env_dual_no_sap0 dual_cmd Server_new)) = True \<and>
   map interface_name
     (ap_interfaces (snd (snd (setHostapdParam env_dual_no_sap0 dual_cmd Server_new))))
     = [''br0'', ''sap1'']"
  by code_simp

section \<open>Transport status of the Server's operations\<close>

lemma createClientInterface_status: "fst (createClientInterface env created s) = ok"
  by (simp add: createClientInterface_def Let_def split: prod.splits sum.splits)

lemma createApInterface_status: "fst (createApInterface env created s) = ok"
  by (simp add: createApInterface_def Let_def split: prod.splits sum.splits)

lemma setHostapdParam_status: "fst (setHostapdParam env cmd s) = ok"
  by (simp add: setHostapdParam_def Let_def split: option.splits prod.splits)

text \<open>
  C10. Each of \<^verbatim>\<open>createClientInterface\<close>, \<^verbatim>\<open>createApInterface\<close>,
  \<^verbatim>\<open>QcCreateApInterface\<close>, the three teardown operations,
  \<^verbatim>\<open>RegisterCallback\<close>, \<^verbatim>\<open>UnregisterCallback\<close> and
  \<^verbatim>\<open>setHostapdParam\<close> returns the OK status in every state and environment. When the
  set-up of an interface fails, the creating operation returns OK with the out-parameter as
  it was before the call (null, if the caller passed it null) and the state as the set-up
  left it: the failure shows in the out-parameter only.
\<close>

theorem Server_operations_return_ok:
  "fst (createClientInterface env created s) = ok \<and>
   fst (createApInterface env created s) = ok \<and>
   fst (QcCreateApInterface env ifname created s) = ok \<and>
   fst (tearDownInterfaces env s) = ok \<and>
   fst (tearDownStaInterfaces s) = ok \<and>
   fst (tearDownApInterfaces s) = ok \<and>
   fst (RegisterCallback cb s) = ok \<and>
   fst (UnregisterCallback cb s) = ok \<and>
   fst (setHostapdParam env cmd s) = ok \<and>
   (\<forall>e s1. SetupInterface env s = (Inl e, s1) \<longrightarrow>
      createClientInterface env created s = (ok, created, s1) \<and>
      createApInterface env created s = (ok, created, s1)) \<and>
   (\<forall>e s1. QcSetupInterface env (c_str ifname) s = (Inl e, s1) \<longrightarrow>
      QcCreateApInterface env ifname created s = (ok, created, s1))"
proof -
  have teardown: "fst (tearDownInterfaces env s) = ok" "fst (tearDownStaInterfaces s) = ok"
    "fst (tearDownApInterfaces s) = ok"
    by (simp_all add: tearDownInterfaces_def tearDownStaInterfaces_def tearDownApInterfaces_def
          Let_def)
  have registry: "fst (RegisterCallback cb s) = ok" "fst (UnregisterCallback cb s) = ok"
    by (simp_all add: RegisterCallback_def UnregisterCallback_def split: option.splits)
  have unset: "\<forall>e s1. SetupInterface env s = (Inl e, s1) \<longrightarrow>
      createClientInterface env created s = (ok, created, s1) \<and>
      createApInterface env created s = (ok, created, s1)"
    by (simp add: createClientInterface_def createApInterface_def)
  have qc_unset: "\<forall>e s1. QcSetupInterface env (c_str ifname) s = (Inl e, s1) \<longrightarrow>
      QcCreateApInterface env ifname created s = (ok, created, s1)"
    by (simp add: QcCreateApInterface_def)
  from createClientInterface_status [of env created s] createApInterface_status [of env created s]
    QcCreateApInterface_status [of env ifname created s] setHostapdParam_status [of env cmd s]
    teardown registry unset qc_unset
  show ?thesis by blast
qed

theorem Server_operations_return_ok_witness:
  "SetupInterface env_dual_no_sap0 Server_with_station =
     (Inl OtherInterfacesExist, Server_with_station) \<and>
   createClientInterface env_dual_no_sap0 None Server_with_station =
     (ok, None, Server_with_station) \<and>
   createApInterface env_dual_no_sap0 None Server_with_station =
     (ok, None, Server_with_station) \<and>
   fst (QcSetupInterface env_dual_no_sap0 (c_str ''sap0'') Server_with_station) =
     Inl NoUsableInterface \<and>
   QcCreateApInterface env_dual_no_sap0 ''sap0'' None Server_with_station =
     (ok, None, snd (QcSetupInterface env_dual_no_sap0 (c_str ''sap0'') Server_with_station)) \<and>
   fst (setHostapdParam env_dual_no_sap0 dual_cmd Server_with_station) = ok"
proof -
  have h1: "SetupInterface env_dual_no_sap0 Server_with_station =
     (Inl OtherInterfacesExist, Server_with_station)"
    by (simp add: SetupInterface_def Server_with_station_def Server_new_def)
  have h2: "fst (QcSetupInterface env_dual_no_sap0 (c_str ''sap0'') Server_with_station) =
     Inl NoUsableInterface"
    by code_simp
  then have h3: "QcSetupInterface env_dual_no_sap0 (c_str ''sap0'') Server_with_station =
     (Inl NoUsableInterface,
      snd (QcSetupInterface env_dual_no_sap0 (c_str ''sap0'') Server_with_station))"
    by (metis prod.collapse)
  from Server_operations_return_ok
         [of env_dual_no_sap0 None Server_with_station "''sap0''" 7 dual_cmd] h1 h2 h3
  show ?thesis by blast
qed

end
